theory Spec2Isabelle
  imports Main "HOL-Library.Sublist"
begin

section \<open>The example script \<open>examples/simple_usage.py\<close>\<close>

text \<open>
  The script calls an external forecasting client (\<open>tsfm_client\<close>) and prints what comes
  back. Nothing of the client is in the repository, so every interaction with it is an
  oracle of the model: a \<open>world\<close> says, for the source line of each interaction, whether
  that interaction raises or which object it yields. Every such line is executed at most
  once in a run, so an oracle indexed by source line covers every behaviour of the client,
  also one that depends on the calls made before.

  A run is a pair: how it ended (an exception that nobody caught, or a value) and the
  events it produced, in order. An event is a line printed or a call made, tagged with the
  source line of the statement.
\<close>

subsection \<open>Values, exceptions, requests\<close>

text \<open>
  \<open>exn\<close> stands for an instance of Python's class \<open>Exception\<close>, which is the class every
  handler of the script names; it carries the text that \<open>{e}\<close> formats to. Signals that
  are not instances of \<open>Exception\<close> (\<open>KeyboardInterrupt\<close>, \<open>SystemExit\<close>) are outside the
  model.
\<close>

datatype exn = Exception (str_exn: string)

text \<open>
  An object handed out by the client library is known to the script only through its
  truth value (\<open>if response.confidence_intervals:\<close>) and its rendering in an f-string.
\<close>

datatype pyval = Obj (truthy: bool) (str: string)

text \<open>
  The series passed to \<open>predict\<close>: a literal list of integers, or a pandas \<open>Series\<close> of the
  given number of daily periods from 2024-01-01 whose values are random.
\<close>

datatype timeseries = PyList "int list" | PdSeries nat

text \<open>The arguments of a \<open>predict\<close> call; an argument the call site leaves out is \<open>None\<close>.\<close>

record kwargs =
  arg_data :: timeseries
  arg_forecast_horizon :: "nat option"
  arg_confidence_intervals :: "bool option"
  arg_model :: "string option"

datatype request =
    Predict_fn kwargs
  | SimpleTSFMClient
  | List_models pyval
  | Predict pyval kwargs
  | Health_check pyval
  | Get_model_info pyval string
  | Getattr pyval string
  | To_pandas pyval

datatype event = Print nat string | Call nat request

record world =
  client_lib :: "nat \<Rightarrow> exn + pyval"
  random_text :: "nat \<Rightarrow> string"

subsection \<open>Statements\<close>

type_synonym 'a py = "(exn + 'a) \<times> event list"

definition ret :: "'a \<Rightarrow> 'a py" where
  "ret x = (Inr x, [])"

definition bind :: "'a py \<Rightarrow> ('a \<Rightarrow> 'b py) \<Rightarrow> 'b py" where
  "bind m f =
     (case m of
        (Inl e, t) \<Rightarrow> (Inl e, t)
      | (Inr x, t) \<Rightarrow> (case f x of (r, t') \<Rightarrow> (r, t @ t')))"

definition seq :: "unit py \<Rightarrow> 'b py \<Rightarrow> 'b py" where
  "seq m n = bind m (\<lambda>_. n)"

definition print :: "nat \<Rightarrow> string \<Rightarrow> unit py" where
  "print l s = (Inr (), [Print l s])"

definition call :: "world \<Rightarrow> nat \<Rightarrow> request \<Rightarrow> pyval py" where
  "call w l rq = (client_lib w l, [Call l rq])"

text \<open>\<open>try: body / except Exception as e: handler e\<close>.\<close>

definition try_except :: "unit py \<Rightarrow> (exn \<Rightarrow> unit py) \<Rightarrow> unit py" where
  "try_except body handler =
     (case body of
        (Inl e, t) \<Rightarrow> (case handler e of (r, t') \<Rightarrow> (r, t @ t'))
      | (Inr x, t) \<Rightarrow> (Inr x, t))"

subsection \<open>Text\<close>

text \<open>Strings are UTF-8 bytes; the pictographs of the messages are their encodings.\<close>

definition rocket :: string where
  "rocket = [CHR 0xF0, CHR 0x9F, CHR 0x9A, CHR 0x80]"

definition check_mark :: string where
  "check_mark = [CHR 0xE2, CHR 0x9C, CHR 0x85]"

definition cross_mark :: string where
  "cross_mark = [CHR 0xE2, CHR 0x9D, CHR 0x8C]"

definition warning_sign :: string where
  "warning_sign = [CHR 0xE2, CHR 0x9A, CHR 0xA0, CHR 0xEF, CHR 0xB8, CHR 0x8F]"

definition party_popper :: string where
  "party_popper = [CHR 0xF0, CHR 0x9F, CHR 0x8E, CHR 0x89]"

definition bar_chart :: string where
  "bar_chart = [CHR 0xF0, CHR 0x9F, CHR 0x93, CHR 0x8A]"

definition newline :: string where
  "newline = [CHR 0x0A]"

function str_nat :: "nat \<Rightarrow> string" where
  "str_nat n =
     (if n < 10 then [char_of (48 + n)]
      else str_nat (n div 10) @ [char_of (48 + n mod 10)])"
  by pat_completeness auto
termination
  by (relation "measure id") auto

definition str_int :: "int \<Rightarrow> string" where
  "str_int i = (if i < 0 then ''-'' @ str_nat (nat (- i)) else str_nat (nat i))"

fun join :: "string \<Rightarrow> string list \<Rightarrow> string" where
  "join sep [] = []"
| "join sep [x] = x"
| "join sep (x # y # ys) = x @ sep @ join sep (y # ys)"

text \<open>How an f-string renders a list of integers, and the shape of a one-dimensional series.\<close>

definition str_list :: "int list \<Rightarrow> string" where
  "str_list xs = ''['' @ join '', '' (map str_int xs) @ '']''"

definition str_shape :: "timeseries \<Rightarrow> string" where
  "str_shape ts =
     ''('' @ str_nat (case ts of PyList xs \<Rightarrow> length xs | PdSeries n \<Rightarrow> n) @ '',)''"

text \<open>The two message forms of the handlers: lines 35, 63, 85, 114, 130, 171, and line 111.\<close>

definition error_msg :: "exn \<Rightarrow> string" where
  "error_msg e = cross_mark @ '' Error: '' @ str_exn e"

definition toto_msg :: "exn \<Rightarrow> string" where
  "toto_msg e = warning_sign @ ''  TOTO model not available: '' @ str_exn e"

subsection \<open>The function \<open>main\<close>\<close>

text \<open>
  \<open>main\<close> is a banner, five numbered methods and a closing line. Each method is written
  here as a definition of its own, from its heading to the end of its \<open>try\<close> statement;
  \<open>main\<close> runs them in the order of the source. The client object is constructed on
  line 41, after the heading of the second method and before its \<open>try\<close>, and is used by
  methods 2 to 5.
\<close>

text \<open>Lines 20 to 35.\<close>

definition method1 :: "world \<Rightarrow> unit py" where
  "method1 w =
     seq (print 20 (newline @ ''1. Quick Prediction (Global Function)''))
    (seq (print 21 (replicate 40 CHR ''-''))
    (let data1 = [10, 12, 13, 15, 17, 16, 18, 20, 22, 25] in
     seq (print 24 (''Input data: '' @ str_list data1))
    (try_except
      (bind (call w 27 (Predict_fn
              \<lparr>arg_data = PyList data1, arg_forecast_horizon = Some 5,
               arg_confidence_intervals = None, arg_model = None\<rparr>)) (\<lambda>response.
       bind (call w 31 (Getattr response ''forecast'')) (\<lambda>forecast.
       seq (print 31 (check_mark @ '' Forecast: '' @ str forecast))
      (bind (call w 32 (Getattr response ''model_name'')) (\<lambda>model_name.
       seq (print 32 (''   Model: '' @ str model_name))
      (bind (call w 33 (Getattr response ''metadata'')) (\<lambda>metadata.
       print 33 (''   Metadata: '' @ str metadata))))))))
      (\<lambda>e. print 35 (error_msg e)))))"

text \<open>Lines 38 and 39: the heading of the second method.\<close>

definition heading2 :: "unit py" where
  "heading2 =
     seq (print 38 (newline @ ''2. Client Instance (Multiple Predictions)''))
         (print 39 (replicate 40 CHR ''-''))"

text \<open>Lines 43 to 63.\<close>

definition method2 :: "world \<Rightarrow> pyval \<Rightarrow> unit py" where
  "method2 w client =
     try_except
      (bind (call w 45 (List_models client)) (\<lambda>models.
       seq (print 46 (''Available models: '' @ str models))
      (bind (call w 49 (Predict client
              \<lparr>arg_data = PyList [1, 2, 3, 4, 5, 6, 7, 8, 9, 10], arg_forecast_horizon = None,
               arg_confidence_intervals = None, arg_model = None\<rparr>)) (\<lambda>response.
       bind (call w 50 (Getattr response ''forecast'')) (\<lambda>forecast.
       seq (print 50 (check_mark @ '' Simple forecast: '' @ str forecast))
      (bind (call w 53 (Predict client
              \<lparr>arg_data = PyList [1, 2, 3, 4, 5, 6, 7, 8, 9, 10], arg_forecast_horizon = Some 3,
               arg_confidence_intervals = Some True, arg_model = None\<rparr>)) (\<lambda>response.
       bind (call w 58 (Getattr response ''forecast'')) (\<lambda>forecast.
       seq (print 58 (check_mark @ '' Forecast with CI: '' @ str forecast))
      (bind (call w 59 (Getattr response ''confidence_intervals'')) (\<lambda>ci.
       if truthy ci
       then bind (call w 60 (Getattr response ''confidence_intervals'')) (\<lambda>ci.
            print 60 (''   Confidence intervals: '' @ str ci))
       else ret ()))))))))))
      (\<lambda>e. print 63 (error_msg e))"

text \<open>Lines 66 to 85. The pandas and numpy calls of lines 71 and 72 are taken to succeed.\<close>

definition method3 :: "world \<Rightarrow> pyval \<Rightarrow> unit py" where
  "method3 w client =
     seq (print 66 (newline @ ''3. Using Pandas Series''))
    (seq (print 67 (replicate 40 CHR ''-''))
    (try_except
      (let ts_data = PdSeries 20 in
       seq (print 74 (''Pandas series shape: '' @ str_shape ts_data))
      (seq (print 75 (''Sample values: '' @ random_text w 75))
      (bind (call w 77 (Predict client
              \<lparr>arg_data = ts_data, arg_forecast_horizon = Some 7,
               arg_confidence_intervals = None, arg_model = Some ''chronos-t5-small''\<rparr>)) (\<lambda>response.
       bind (call w 82 (Getattr response ''forecast'')) (\<lambda>forecast.
       print 82 (check_mark @ '' Forecast: '' @ str forecast))))))
      (\<lambda>e. print 85 (error_msg e))))"

text \<open>Lines 88 to 114, with the nested \<open>try\<close> of lines 103 to 111.\<close>

definition method4 :: "world \<Rightarrow> pyval \<Rightarrow> unit py" where
  "method4 w client =
     seq (print 88 (newline @ ''4. Different Models''))
    (seq (print 89 (replicate 40 CHR ''-''))
    (let test_data = [5, 6, 7, 8, 9, 10, 11, 12, 13, 14] in
     try_except
      (bind (call w 95 (Predict client
              \<lparr>arg_data = PyList test_data, arg_forecast_horizon = Some 3,
               arg_confidence_intervals = None, arg_model = Some ''chronos-t5-small''\<rparr>)) (\<lambda>response1.
       bind (call w 100 (Getattr response1 ''forecast'')) (\<lambda>forecast.
       seq (print 100 (check_mark @ '' Chronos T5 Small: '' @ str forecast))
      (try_except
        (bind (call w 104 (Predict client
                \<lparr>arg_data = PyList test_data, arg_forecast_horizon = Some 3,
                 arg_confidence_intervals = None, arg_model = Some ''toto-open-base-1.0''\<rparr>)) (\<lambda>response2.
         bind (call w 109 (Getattr response2 ''forecast'')) (\<lambda>forecast.
         print 109 (check_mark @ '' TOTO Open Base: '' @ str forecast))))
        (\<lambda>e. print 111 (toto_msg e))))))
      (\<lambda>e. print 114 (error_msg e))))"

text \<open>Lines 117 to 130.\<close>

definition method5 :: "world \<Rightarrow> pyval \<Rightarrow> unit py" where
  "method5 w client =
     seq (print 117 (newline @ ''5. Model Info & Health Check''))
    (seq (print 118 (replicate 40 CHR ''-''))
    (try_except
      (bind (call w 122 (Health_check client)) (\<lambda>health.
       seq (print 123 (check_mark @ '' Health check: '' @ str health))
      (bind (call w 126 (Get_model_info client ''chronos-t5-small'')) (\<lambda>info.
       print 127 (check_mark @ '' Model info: '' @ str info)))))
      (\<lambda>e. print 130 (error_msg e))))"

definition main :: "world \<Rightarrow> unit py" where
  "main w =
     seq (print 16 (rocket @ '' TSFM Client - Simple Usage Examples''))
    (seq (print 17 (replicate 50 CHR ''=''))
    (seq (method1 w)
    (seq heading2
    (bind (call w 41 SimpleTSFMClient) (\<lambda>client.
     seq (method2 w client)
    (seq (method3 w client)
    (seq (method4 w client)
    (seq (method5 w client)
         (print 132 (newline @ party_popper @ '' All examples completed!''))))))))))"

subsection \<open>The function \<open>pandas_example\<close> and the script\<close>

text \<open>
  Lines 139 to 171. The pandas and numpy calls of lines 143 to 150 are outside the \<open>try\<close>
  and are taken to succeed; the random values they produce reach the output through
  \<open>random_text\<close>.
\<close>

definition pandas_example :: "world \<Rightarrow> unit py" where
  "pandas_example w =
     seq (print 139 (newline @ bar_chart @ '' Advanced Pandas Example''))
    (seq (print 140 (replicate 30 CHR ''=''))
    (let sales_data = PdSeries 50 in
     seq (print 152 ''Sample data (last 5 days):'')
    (seq (print 153 (random_text w 153))
    (try_except
      (bind (call w 157 (Predict_fn
              \<lparr>arg_data = sales_data, arg_forecast_horizon = Some 10,
               arg_confidence_intervals = Some True, arg_model = None\<rparr>)) (\<lambda>response.
       bind (call w 163 (Getattr response ''forecast'')) (\<lambda>forecast.
       seq (print 163 (newline @ check_mark @ '' 10-day forecast: '' @ str forecast))
      (bind (call w 166 (To_pandas response)) (\<lambda>forecast_df.
       seq (print 167 (newline @ ''Forecast DataFrame:''))
           (print 168 (str forecast_df)))))))
      (\<lambda>e. print 171 (error_msg e))))))"

text \<open>Lines 174 to 182: what running the file as \<open>__main__\<close> does.\<close>

definition script :: "world \<Rightarrow> unit py" where
  "script w =
     seq (print 175 ''Make sure the TSFM server is running on http://localhost:8000'')
    (seq (print 176 [])
    (seq (main w)
         (pandas_example w)))"

subsection \<open>Reading a run\<close>

definition outcome :: "'a py \<Rightarrow> exn + 'a" where
  "outcome m = fst m"

definition trace :: "'a py \<Rightarrow> event list" where
  "trace m = snd m"

fun line_of :: "event \<Rightarrow> nat" where
  "line_of (Print l s) = l"
| "line_of (Call l rq) = l"

text \<open>The lines printed, and the source lines of the calls made, in order.\<close>

fun printed :: "event list \<Rightarrow> string list" where
  "printed [] = []"
| "printed (Print l s # evs) = s # printed evs"
| "printed (Call l rq # evs) = printed evs"

fun called :: "event list \<Rightarrow> nat list" where
  "called [] = []"
| "called (Print l s # evs) = called evs"
| "called (Call l rq # evs) = l # called evs"

fun raises :: "exn + 'a \<Rightarrow> bool" where
  "raises (Inl e) = True"
| "raises (Inr v) = False"

text \<open>The exceptions raised by the calls of a trace, in order.\<close>

fun raised :: "world \<Rightarrow> event list \<Rightarrow> exn list" where
  "raised w [] = []"
| "raised w (Print l s # evs) = raised w evs"
| "raised w (Call l rq # evs) =
     (case client_lib w l of Inl e \<Rightarrow> e # raised w evs | Inr v \<Rightarrow> raised w evs)"

text \<open>The renderings of the values that reads of a \<open>forecast\<close> attribute returned.\<close>

fun forecast_read :: "world \<Rightarrow> event \<Rightarrow> string option" where
  "forecast_read w (Call l (Getattr obj a)) =
     (case client_lib w l of
        Inl e \<Rightarrow> None
      | Inr v \<Rightarrow> if a = ''forecast'' then Some (str v) else None)"
| "forecast_read w ev = None"

fun forecasts :: "world \<Rightarrow> event list \<Rightarrow> string list" where
  "forecasts w [] = []"
| "forecasts w (ev # evs) =
     (case forecast_read w ev of None \<Rightarrow> forecasts w evs | Some f \<Rightarrow> f # forecasts w evs)"

text \<open>
  A success line carries the check mark and ends with the value it reports; a failure line
  is one of the two messages of the handlers.
\<close>

definition success_line :: "string \<Rightarrow> string \<Rightarrow> bool" where
  "success_line v s = (sublist check_mark s \<and> suffix v s)"

definition failure_line :: "exn \<Rightarrow> string \<Rightarrow> bool" where
  "failure_line e s = (s = error_msg e \<or> s = toto_msg e)"

definition reports_forecast :: "world \<Rightarrow> event list \<Rightarrow> bool" where
  "reports_forecast w tr =
     (\<exists>f \<in> set (forecasts w tr). \<exists>s \<in> set (printed tr). success_line f s)"

definition reports_failure :: "world \<Rightarrow> event list \<Rightarrow> bool" where
  "reports_failure w tr =
     (\<exists>e \<in> set (raised w tr). \<exists>s \<in> set (printed tr). failure_line e s)"

text \<open>
  The source line of the \<open>print\<close> in the \<open>except\<close> clause of the innermost \<open>try\<close> statement
  whose body holds line \<open>l\<close>, if there is one. The bodies are lines 27 to 33, 44 to 61,
  70 to 83, 94 to 112 with 104 to 109 nested in it, 121 to 128, and 156 to 169.
\<close>

definition handler_line :: "nat \<Rightarrow> nat option" where
  "handler_line l =
     (if 27 \<le> l \<and> l \<le> 33 then Some 35
      else if 44 \<le> l \<and> l \<le> 61 then Some 63
      else if 70 \<le> l \<and> l \<le> 83 then Some 85
      else if 104 \<le> l \<and> l \<le> 109 then Some 111
      else if 94 \<le> l \<and> l \<le> 112 then Some 114
      else if 121 \<le> l \<and> l \<le> 128 then Some 130
      else if 156 \<le> l \<and> l \<le> 169 then Some 171
      else None)"

definition handler_msg :: "nat \<Rightarrow> exn \<Rightarrow> string" where
  "handler_msg h e = (if h = 111 then toto_msg e else error_msg e)"

text \<open>
  The call on line \<open>l\<close> is guarded in a run: it lies in a \<open>try\<close> body, and if it raised,
  the handler of that \<open>try\<close> printed its message.
\<close>

definition guarded :: "world \<Rightarrow> event list \<Rightarrow> nat \<Rightarrow> bool" where
  "guarded w tr l =
     (case handler_line l of
        None \<Rightarrow> False
      | Some h \<Rightarrow>
          (case client_lib w l of
             Inl e \<Rightarrow> Print h (handler_msg h e) \<in> set tr
           | Inr v \<Rightarrow> True))"

text \<open>The arguments of the \<open>predict\<close> invocations of a trace, with their source lines.\<close>

fun predict_calls :: "event list \<Rightarrow> (nat \<times> kwargs) list" where
  "predict_calls [] = []"
| "predict_calls (Call l (Predict_fn a) # evs) = (l, a) # predict_calls evs"
| "predict_calls (Call l (Predict obj a) # evs) = (l, a) # predict_calls evs"
| "predict_calls (ev # evs) = predict_calls evs"

text \<open>
  The example a source line of \<open>main\<close> belongs to: 0 for the banner of lines 16 and 17,
  \<open>k\<close> for the lines of method \<open>k\<close> from its heading to its handler, 6 for the closing line.
\<close>

definition example_of :: "nat \<Rightarrow> nat" where
  "example_of l =
     (if l < 20 then 0
      else if l \<le> 35 then 1
      else if l \<le> 63 then 2
      else if l \<le> 85 then 3
      else if l \<le> 114 then 4
      else if l \<le> 130 then 5
      else 6)"

text \<open>The headings of the examples and the closing line of \<open>main\<close>.\<close>

definition headings :: "event list" where
  "headings =
     [Print 20 (newline @ ''1. Quick Prediction (Global Function)''),
      Print 38 (newline @ ''2. Client Instance (Multiple Predictions)''),
      Print 66 (newline @ ''3. Using Pandas Series''),
      Print 88 (newline @ ''4. Different Models''),
      Print 117 (newline @ ''5. Model Info & Health Check''),
      Print 139 (newline @ bar_chart @ '' Advanced Pandas Example'')]"

definition completion :: event where
  "completion = Print 132 (newline @ party_popper @ '' All examples completed!'')"

subsection \<open>Some behaviours of the client\<close>

text \<open>Every call succeeds.\<close>

definition world_all_ok :: world where
  "world_all_ok =
     \<lparr>client_lib = (\<lambda>l. Inr (Obj True ''[1.5, 2.5]'')), random_text = (\<lambda>l. ''100.0'')\<rparr>"

text \<open>The constructor raises (no API key); every other call would succeed.\<close>

definition world_no_client :: world where
  "world_no_client =
     \<lparr>client_lib = (\<lambda>l. if l = 41 then Inl (Exception ''TSFM_API_KEY is not set'')
                         else Inr (Obj True ''[1.5, 2.5]'')),
      random_text = (\<lambda>l. ''100.0'')\<rparr>"

text \<open>Every call raises, the constructor too.\<close>

definition world_unreachable :: world where
  "world_unreachable =
     \<lparr>client_lib = (\<lambda>l. Inl (Exception ''Connection refused'')),
      random_text = (\<lambda>l. ''100.0'')\<rparr>"

text \<open>The constructor succeeds and every other call raises.\<close>

definition world_service_down :: world where
  "world_service_down =
     \<lparr>client_lib = (\<lambda>l. if l = 41 then Inr (Obj True ''client'')
                         else Inl (Exception ''Connection refused'')),
      random_text = (\<lambda>l. ''100.0'')\<rparr>"

text \<open>Only the TOTO prediction of line 104 raises.\<close>

definition world_toto_down :: world where
  "world_toto_down =
     \<lparr>client_lib = (\<lambda>l. if l = 104 then Inl (Exception ''Model not found'')
                         else Inr (Obj True ''[1.5, 2.5]'')),
      random_text = (\<lambda>l. ''100.0'')\<rparr>"

text \<open>Only \<open>list_models\<close> on line 45 raises.\<close>

definition world_no_models :: world where
  "world_no_models =
     \<lparr>client_lib = (\<lambda>l. if l = 45 then Inl (Exception ''Forbidden'')
                         else Inr (Obj True ''[1.5, 2.5]'')),
      random_text = (\<lambda>l. ''100.0'')\<rparr>"

section \<open>Properties of the model\<close>

subsection \<open>How statements run\<close>

lemma outcome_ret: "outcome (ret x) = Inr x"
  by (simp add: outcome_def ret_def)

lemma trace_ret: "trace (ret x) = []"
  by (simp add: trace_def ret_def)

lemma outcome_print: "outcome (print l s) = Inr ()"
  by (simp add: outcome_def print_def)

lemma trace_print: "trace (print l s) = [Print l s]"
  by (simp add: trace_def print_def)

lemma outcome_call: "outcome (call w l rq) = client_lib w l"
  by (simp add: outcome_def call_def)

lemma trace_call: "trace (call w l rq) = [Call l rq]"
  by (simp add: trace_def call_def)

lemma outcome_bind:
  "outcome (bind m f) = (case outcome m of Inl e \<Rightarrow> Inl e | Inr x \<Rightarrow> outcome (f x))"
  by (simp add: outcome_def bind_def split: prod.splits sum.splits)

lemma trace_bind:
  "trace (bind m f) = (case outcome m of Inl e \<Rightarrow> trace m | Inr x \<Rightarrow> trace m @ trace (f x))"
  by (simp add: outcome_def trace_def bind_def split: prod.splits sum.splits)

lemma outcome_seq:
  "outcome (seq m n) = (case outcome m of Inl e \<Rightarrow> Inl e | Inr x \<Rightarrow> outcome n)"
  by (simp add: seq_def outcome_bind)

lemma trace_seq:
  "trace (seq m n) = (case outcome m of Inl e \<Rightarrow> trace m | Inr x \<Rightarrow> trace m @ trace n)"
  by (simp add: seq_def trace_bind)

lemma outcome_try_except:
  "outcome (try_except b h) = (case outcome b of Inl e \<Rightarrow> outcome (h e) | Inr x \<Rightarrow> Inr x)"
  by (simp add: outcome_def try_except_def split: prod.splits sum.splits)

lemma trace_try_except:
  "trace (try_except b h) =
     (case outcome b of Inl e \<Rightarrow> trace b @ trace (h e) | Inr x \<Rightarrow> trace b)"
  by (simp add: outcome_def trace_def try_except_def split: prod.splits sum.splits)

lemmas run_simps =
  outcome_ret trace_ret outcome_print trace_print outcome_call trace_call
  outcome_bind trace_bind outcome_seq trace_seq outcome_try_except trace_try_except Let_def

lemma printed_append: "printed (xs @ ys) = printed xs @ printed ys"
  by (induction xs rule: printed.induct) simp_all

lemma called_append: "called (xs @ ys) = called xs @ called ys"
  by (induction xs rule: called.induct) simp_all

lemma called_set: "l \<in> set (called tr) \<longleftrightarrow> (\<exists>rq. Call l rq \<in> set tr)"
  by (induction tr rule: called.induct) auto

lemma called_line: "l \<in> set (called tr) \<Longrightarrow> l \<in> line_of ` set tr"
  by (induction tr rule: called.induct) auto

lemma guarded_mono: "guarded w tr l \<Longrightarrow> set tr \<subseteq> set tr' \<Longrightarrow> guarded w tr' l"
  by (auto simp add: guarded_def split: option.splits sum.splits)

subsection \<open>The methods one by one\<close>

text \<open>No method lets an exception out: each ends in its handler at the latest.\<close>

lemma method1_returns: "outcome (method1 w) = Inr ()"
  by (simp add: method1_def run_simps split: sum.splits)

lemma heading2_returns: "outcome heading2 = Inr ()"
  by (simp add: heading2_def run_simps)

lemma method2_returns: "outcome (method2 w c) = Inr ()"
  by (simp add: method2_def run_simps split: sum.splits)

lemma method3_returns: "outcome (method3 w c) = Inr ()"
  by (simp add: method3_def run_simps split: sum.splits)

lemma method4_returns: "outcome (method4 w c) = Inr ()"
  by (simp add: method4_def run_simps split: sum.splits)

lemma method5_returns: "outcome (method5 w c) = Inr ()"
  by (simp add: method5_def run_simps split: sum.splits)

lemma pandas_example_returns: "outcome (pandas_example w) = Inr ()"
  by (simp add: pandas_example_def run_simps split: sum.splits)

lemmas returns =
  method1_returns heading2_returns method2_returns method3_returns method4_returns
  method5_returns pandas_example_returns

text \<open>The events of a method come in the order of the source and from its own lines.\<close>

lemma method1_sorted: "sorted (map line_of (trace (method1 w)))"
  by (simp add: method1_def run_simps split: sum.splits)

lemma method2_sorted: "sorted (map line_of (trace (method2 w c)))"
  by (simp add: method2_def run_simps split: sum.splits)

lemma method3_sorted: "sorted (map line_of (trace (method3 w c)))"
  by (simp add: method3_def run_simps split: sum.splits)

lemma method4_sorted: "sorted (map line_of (trace (method4 w c)))"
  by (simp add: method4_def run_simps split: sum.splits)

lemma method5_sorted: "sorted (map line_of (trace (method5 w c)))"
  by (simp add: method5_def run_simps split: sum.splits)

lemma pandas_example_sorted: "sorted (map line_of (trace (pandas_example w)))"
  by (simp add: pandas_example_def run_simps split: sum.splits)

lemma method1_lines:
  "ev \<in> set (trace (method1 w)) \<Longrightarrow> 20 \<le> line_of ev \<and> line_of ev \<le> 35"
  by (auto simp add: method1_def run_simps split: sum.splits)

lemma heading2_lines:
  "ev \<in> set (trace heading2) \<Longrightarrow> 38 \<le> line_of ev \<and> line_of ev \<le> 39"
  by (auto simp add: heading2_def run_simps)

lemma method2_lines:
  "ev \<in> set (trace (method2 w c)) \<Longrightarrow> 45 \<le> line_of ev \<and> line_of ev \<le> 63"
  by (auto simp add: method2_def run_simps split: sum.splits if_splits)

lemma method3_lines:
  "ev \<in> set (trace (method3 w c)) \<Longrightarrow> 66 \<le> line_of ev \<and> line_of ev \<le> 85"
  by (auto simp add: method3_def run_simps split: sum.splits)

lemma method4_lines:
  "ev \<in> set (trace (method4 w c)) \<Longrightarrow> 88 \<le> line_of ev \<and> line_of ev \<le> 114"
  by (auto simp add: method4_def run_simps split: sum.splits)

lemma method5_lines:
  "ev \<in> set (trace (method5 w c)) \<Longrightarrow> 117 \<le> line_of ev \<and> line_of ev \<le> 130"
  by (auto simp add: method5_def run_simps split: sum.splits)

lemma pandas_example_lines:
  "ev \<in> set (trace (pandas_example w)) \<Longrightarrow> 139 \<le> line_of ev \<and> line_of ev \<le> 171"
  by (auto simp add: pandas_example_def run_simps split: sum.splits)

text \<open>No call is made twice.\<close>

lemma method1_distinct: "distinct (called (trace (method1 w)))"
  by (simp add: method1_def run_simps split: sum.splits)

lemma method2_distinct: "distinct (called (trace (method2 w c)))"
  by (simp add: method2_def run_simps split: sum.splits)

lemma method3_distinct: "distinct (called (trace (method3 w c)))"
  by (simp add: method3_def run_simps split: sum.splits)

lemma method4_distinct: "distinct (called (trace (method4 w c)))"
  by (simp add: method4_def run_simps split: sum.splits)

lemma method5_distinct: "distinct (called (trace (method5 w c)))"
  by (simp add: method5_def run_simps split: sum.splits)

lemma pandas_example_distinct: "distinct (called (trace (pandas_example w)))"
  by (simp add: pandas_example_def run_simps split: sum.splits)

text \<open>Every call of a method is guarded.\<close>

lemma handler_line_values:
  "handler_line 27 = Some 35" "handler_line 31 = Some 35" "handler_line 32 = Some 35"
  "handler_line 33 = Some 35"
  "handler_line 41 = None"
  "handler_line 45 = Some 63" "handler_line 49 = Some 63" "handler_line 50 = Some 63"
  "handler_line 53 = Some 63" "handler_line 58 = Some 63" "handler_line 59 = Some 63"
  "handler_line 60 = Some 63"
  "handler_line 77 = Some 85" "handler_line 82 = Some 85"
  "handler_line 95 = Some 114" "handler_line 100 = Some 114"
  "handler_line 104 = Some 111" "handler_line 109 = Some 111"
  "handler_line 122 = Some 130" "handler_line 126 = Some 130"
  "handler_line 157 = Some 171" "handler_line 163 = Some 171" "handler_line 166 = Some 171"
  by (simp_all add: handler_line_def)

lemmas guarded_simps = run_simps guarded_def handler_line_values handler_msg_def

lemma method1_guarded:
  "\<forall>l \<in> set (called (trace (method1 w))). guarded w (trace (method1 w)) l"
  by (simp add: method1_def guarded_simps split: sum.splits)

lemma method2_guarded:
  "\<forall>l \<in> set (called (trace (method2 w c))). guarded w (trace (method2 w c)) l"
  by (simp add: method2_def guarded_simps split: sum.splits)

lemma method3_guarded:
  "\<forall>l \<in> set (called (trace (method3 w c))). guarded w (trace (method3 w c)) l"
  by (simp add: method3_def guarded_simps split: sum.splits)

lemma method4_guarded:
  "\<forall>l \<in> set (called (trace (method4 w c))). guarded w (trace (method4 w c)) l"
  by (simp add: method4_def guarded_simps split: sum.splits)

lemma method5_guarded:
  "\<forall>l \<in> set (called (trace (method5 w c))). guarded w (trace (method5 w c)) l"
  by (simp add: method5_def guarded_simps split: sum.splits)

lemma pandas_example_guarded:
  "\<forall>l \<in> set (called (trace (pandas_example w))). guarded w (trace (pandas_example w)) l"
  by (simp add: pandas_example_def guarded_simps split: sum.splits)

subsection \<open>The whole run\<close>

lemma outcome_main:
  "outcome (main w) = (case client_lib w 41 of Inl e \<Rightarrow> Inl e | Inr client \<Rightarrow> Inr ())"
  by (simp add: main_def run_simps returns split: sum.splits)

lemma trace_main:
  "trace (main w) =
     [Print 16 (rocket @ '' TSFM Client - Simple Usage Examples''),
      Print 17 (replicate 50 CHR ''='')]
     @ trace (method1 w) @ trace heading2 @ [Call 41 SimpleTSFMClient]
     @ (case client_lib w 41 of
          Inl e \<Rightarrow> []
        | Inr client \<Rightarrow>
            trace (method2 w client) @ trace (method3 w client) @ trace (method4 w client)
            @ trace (method5 w client) @ [completion])"
  by (simp add: main_def run_simps returns completion_def split: sum.splits)

lemma outcome_script:
  "outcome (script w) = (case client_lib w 41 of Inl e \<Rightarrow> Inl e | Inr client \<Rightarrow> Inr ())"
  by (simp add: script_def run_simps outcome_main returns split: sum.splits)

lemma trace_script:
  "trace (script w) =
     [Print 175 ''Make sure the TSFM server is running on http://localhost:8000'',
      Print 176 []]
     @ trace (main w)
     @ (case client_lib w 41 of Inl e \<Rightarrow> [] | Inr client \<Rightarrow> trace (pandas_example w))"
  by (simp add: script_def run_simps outcome_main split: sum.splits)

lemma trace_heading2:
  "trace heading2 =
     [Print 38 (newline @ ''2. Client Instance (Multiple Predictions)''),
      Print 39 (replicate 40 CHR ''-'')]"
  by (simp add: heading2_def run_simps)

lemma predict_calls_append: "predict_calls (xs @ ys) = predict_calls xs @ predict_calls ys"
  by (induction xs rule: predict_calls.induct) simp_all

lemma printed_set: "Print l s \<in> set tr \<Longrightarrow> s \<in> set (printed tr)"
  by (induction tr rule: printed.induct) auto

text \<open>The calls a method can make.\<close>

lemma method1_calls: "set (called (trace (method1 w))) \<subseteq> {27, 31, 32, 33}"
  by (simp add: method1_def run_simps split: sum.splits)

lemma method2_calls: "set (called (trace (method2 w c))) \<subseteq> {45, 49, 50, 53, 58, 59, 60}"
  by (simp add: method2_def run_simps split: sum.splits)

lemma method3_calls: "set (called (trace (method3 w c))) \<subseteq> {77, 82}"
  by (simp add: method3_def run_simps split: sum.splits)

lemma method4_calls: "set (called (trace (method4 w c))) \<subseteq> {95, 100, 104, 109}"
  by (simp add: method4_def run_simps split: sum.splits)

lemma method5_calls: "set (called (trace (method5 w c))) \<subseteq> {122, 126}"
  by (simp add: method5_def run_simps split: sum.splits)

lemma pandas_example_calls: "set (called (trace (pandas_example w))) \<subseteq> {157, 163, 166}"
  by (simp add: pandas_example_def run_simps split: sum.splits)

lemma called_heading2: "called (trace heading2) = []"
  by (simp add: trace_heading2)

text \<open>The calls of the script, when the constructor raises and when it returns.\<close>

lemma called_script_no_client:
  "client_lib w 41 = Inl e \<Longrightarrow> called (trace (script w)) = called (trace (method1 w)) @ [41]"
  by (simp add: trace_script trace_main called_append called_heading2)

lemma called_script_client:
  "client_lib w 41 = Inr c \<Longrightarrow>
   called (trace (script w)) =
     called (trace (method1 w)) @ [41] @ called (trace (method2 w c))
     @ called (trace (method3 w c)) @ called (trace (method4 w c))
     @ called (trace (method5 w c)) @ called (trace (pandas_example w))"
  by (simp add: trace_script trace_main called_append called_heading2 completion_def)

lemma method1_in_script: "set (trace (method1 w)) \<subseteq> set (trace (script w))"
  by (auto simp add: trace_script trace_main)

lemma methods_in_script:
  assumes "client_lib w 41 = Inr c"
  shows "set (trace (method2 w c)) \<subseteq> set (trace (script w))"
    and "set (trace (method3 w c)) \<subseteq> set (trace (script w))"
    and "set (trace (method4 w c)) \<subseteq> set (trace (script w))"
    and "set (trace (method5 w c)) \<subseteq> set (trace (script w))"
    and "set (trace (pandas_example w)) \<subseteq> set (trace (script w))"
  using assms by (auto simp add: trace_script trace_main)

lemma script_guarded:
  assumes "l \<in> set (called (trace (script w)))" and "l \<noteq> 41"
  shows "guarded w (trace (script w)) l"
proof (cases "client_lib w 41")
  case (Inl e)
  with assms have "l \<in> set (called (trace (method1 w)))"
    by (simp add: called_script_no_client)
  then have "guarded w (trace (method1 w)) l"
    using method1_guarded by blast
  then show ?thesis
    by (rule guarded_mono) (rule method1_in_script)
next
  case (Inr c)
  note sub = methods_in_script [OF Inr]
  from assms Inr consider
      "l \<in> set (called (trace (method1 w)))"
    | "l \<in> set (called (trace (method2 w c)))"
    | "l \<in> set (called (trace (method3 w c)))"
    | "l \<in> set (called (trace (method4 w c)))"
    | "l \<in> set (called (trace (method5 w c)))"
    | "l \<in> set (called (trace (pandas_example w)))"
    by (auto simp add: called_script_client)
  then show ?thesis
  proof cases
    case 1
    then have "guarded w (trace (method1 w)) l" using method1_guarded by blast
    then show ?thesis by (rule guarded_mono) (rule method1_in_script)
  next
    case 2
    then have "guarded w (trace (method2 w c)) l" using method2_guarded by blast
    then show ?thesis by (rule guarded_mono) (rule sub)
  next
    case 3
    then have "guarded w (trace (method3 w c)) l" using method3_guarded by blast
    then show ?thesis by (rule guarded_mono) (rule sub)
  next
    case 4
    then have "guarded w (trace (method4 w c)) l" using method4_guarded by blast
    then show ?thesis by (rule guarded_mono) (rule sub)
  next
    case 5
    then have "guarded w (trace (method5 w c)) l" using method5_guarded by blast
    then show ?thesis by (rule guarded_mono) (rule sub)
  next
    case 6
    then have "guarded w (trace (pandas_example w)) l" using pandas_example_guarded by blast
    then show ?thesis by (rule guarded_mono) (rule sub)
  qed
qed

lemma script_calls:
  "set (called (trace (script w))) \<subseteq>
     {27, 31, 32, 33, 41, 45, 49, 50, 53, 58, 59, 60, 77, 82, 95, 100, 104, 109, 122, 126,
      157, 163, 166}"
proof (cases "client_lib w 41")
  case (Inl e)
  then show ?thesis
    using method1_calls [of w] by (auto simp add: called_script_no_client)
next
  case (Inr c)
  then show ?thesis
    using method1_calls [of w] method2_calls [of w c] method3_calls [of w c]
      method4_calls [of w c] method5_calls [of w c] pandas_example_calls [of w]
    by (simp add: called_script_client) blast
qed

lemma script_distinct: "distinct (called (trace (script w)))"
proof (cases "client_lib w 41")
  case (Inl e)
  then show ?thesis
    using method1_calls [of w] method1_distinct [of w]
    by (auto simp add: called_script_no_client)
next
  case (Inr c)
  have d: "A \<subseteq> X \<Longrightarrow> B \<subseteq> Y \<Longrightarrow> X \<inter> Y = {} \<Longrightarrow> A \<inter> B = {}" for A B X Y :: "nat set"
    by blast
  note m = method1_calls [of w] method2_calls [of w c] method3_calls [of w c]
    method4_calls [of w c] method5_calls [of w c] pandas_example_calls [of w]
  have "41 \<notin> set (called (trace (method1 w)))" "41 \<notin> set (called (trace (method2 w c)))"
    "41 \<notin> set (called (trace (method3 w c)))" "41 \<notin> set (called (trace (method4 w c)))"
    "41 \<notin> set (called (trace (method5 w c)))" "41 \<notin> set (called (trace (pandas_example w)))"
    using m by auto
  moreover have
    "set (called (trace (method1 w))) \<inter> set (called (trace (method2 w c))) = {}"
    "set (called (trace (method1 w))) \<inter> set (called (trace (method3 w c))) = {}"
    "set (called (trace (method1 w))) \<inter> set (called (trace (method4 w c))) = {}"
    "set (called (trace (method1 w))) \<inter> set (called (trace (method5 w c))) = {}"
    "set (called (trace (method1 w))) \<inter> set (called (trace (pandas_example w))) = {}"
    "set (called (trace (method2 w c))) \<inter> set (called (trace (method3 w c))) = {}"
    "set (called (trace (method2 w c))) \<inter> set (called (trace (method4 w c))) = {}"
    "set (called (trace (method2 w c))) \<inter> set (called (trace (method5 w c))) = {}"
    "set (called (trace (method2 w c))) \<inter> set (called (trace (pandas_example w))) = {}"
    "set (called (trace (method3 w c))) \<inter> set (called (trace (method4 w c))) = {}"
    "set (called (trace (method3 w c))) \<inter> set (called (trace (method5 w c))) = {}"
    "set (called (trace (method3 w c))) \<inter> set (called (trace (pandas_example w))) = {}"
    "set (called (trace (method4 w c))) \<inter> set (called (trace (method5 w c))) = {}"
    "set (called (trace (method4 w c))) \<inter> set (called (trace (pandas_example w))) = {}"
    "set (called (trace (method5 w c))) \<inter> set (called (trace (pandas_example w))) = {}"
    by (rule d, rule m, rule m, simp)+
  ultimately show ?thesis
    using Inr method1_distinct [of w] method2_distinct [of w c] method3_distinct [of w c]
      method4_distinct [of w c] method5_distinct [of w c] pandas_example_distinct [of w]
    by (simp add: called_script_client Int_Un_distrib Int_Un_distrib2)
qed

section \<open>The claims\<close>

subsection \<open>C1: running to completion\<close>

text \<open>
  C1, as stated, fails: the constructor call of line 41 is outside every \<open>try\<close>. When it
  raises, the exception leaves \<open>main\<close> and ends the script.
\<close>

theorem constructor_failure_ends_script:
  "outcome (script world_no_client) = Inl (Exception ''TSFM_API_KEY is not set'')"
  by (simp add: outcome_script world_no_client_def)

text \<open>
  C1, amended: whatever the other calls of the client library do, the script runs to
  completion without an uncaught exception when the constructor call of line 41 returns;
  when that call raises, its exception ends the script.
\<close>

theorem script_completes_unless_constructor_raises:
  "outcome (script w) = (case client_lib w 41 of Inl e \<Rightarrow> Inl e | Inr client \<Rightarrow> Inr ())"
  by (simp add: script_def run_simps outcome_main returns split: sum.splits)

text \<open>An instance: the constructor returns and each of the six calls made after that raises.\<close>

theorem script_completes_when_service_down:
  "outcome (script world_service_down) = Inr ()
   \<and> raised world_service_down (trace (script world_service_down))
       = replicate 6 (Exception ''Connection refused'')"
proof -
  have "raised world_service_down (trace (script world_service_down))
       = replicate 6 (Exception ''Connection refused'')"
    by code_simp
  then show ?thesis
    using script_completes_unless_constructor_raises [of world_service_down]
    by (simp add: world_service_down_def)
qed

subsection \<open>C2: every call in a \<open>try\<close> block\<close>

text \<open>
  C2, as stated, fails for the client construction: the call of line 41 is made, it raises,
  no failure message is printed for it, and it is the last event of the run.
\<close>

theorem constructor_call_is_unguarded:
  "41 \<in> set (called (trace (script world_no_client)))
   \<and> client_lib world_no_client 41 = Inl (Exception ''TSFM_API_KEY is not set'')
   \<and> error_msg (Exception ''TSFM_API_KEY is not set'')
       \<notin> set (printed (trace (script world_no_client)))
   \<and> toto_msg (Exception ''TSFM_API_KEY is not set'')
       \<notin> set (printed (trace (script world_no_client)))
   \<and> last (trace (script world_no_client)) = Call 41 SimpleTSFMClient"
  by code_simp

text \<open>
  C2, amended: every call the script makes into the client library, other than the client
  construction of line 41, lies in the body of a \<open>try\<close> statement, and when it raises, the
  \<open>except\<close> clause of that statement prints its failure message with the exception.
\<close>

theorem calls_in_try_blocks:
  assumes "l \<in> set (called (trace (script w)))" and "l \<noteq> 41"
  shows "\<exists>h. handler_line l = Some h
           \<and> (\<forall>e. client_lib w l = Inl e \<longrightarrow> Print h (handler_msg h e) \<in> set (trace (script w)))"
  using script_guarded [OF assms]
  by (auto simp add: guarded_def split: option.splits sum.splits)

text \<open>An instance: \<open>list_models\<close> on line 45 raises and the handler of line 63 reports it.\<close>

theorem calls_in_try_blocks_witness:
  "45 \<in> set (called (trace (script world_service_down)))
   \<and> client_lib world_service_down 45 = Inl (Exception ''Connection refused'')
   \<and> handler_line 45 = Some 63
   \<and> Print 63 (error_msg (Exception ''Connection refused''))
       \<in> set (trace (script world_service_down))"
proof -
  have c: "45 \<in> set (called (trace (script world_service_down)))"
    by code_simp
  have r: "client_lib world_service_down 45 = Inl (Exception ''Connection refused'')"
    by (simp add: world_service_down_def)
  from calls_in_try_blocks [OF c] r c show ?thesis
    by (auto simp add: handler_line_values handler_msg_def)
qed

subsection \<open>C3: later examples after a failure\<close>

text \<open>How each method starts: its heading, then the first call of its \<open>try\<close> body.\<close>

lemma method1_starts:
  "Print 20 (newline @ ''1. Quick Prediction (Global Function)'') \<in> set (trace (method1 w))"
  "27 \<in> set (called (trace (method1 w)))"
  by (simp_all add: method1_def run_simps split: sum.splits)

lemma method2_starts: "45 \<in> set (called (trace (method2 w c)))"
  by (simp add: method2_def run_simps split: sum.splits)

lemma method3_starts:
  "Print 66 (newline @ ''3. Using Pandas Series'') \<in> set (trace (method3 w c))"
  "77 \<in> set (called (trace (method3 w c)))"
  by (simp_all add: method3_def run_simps split: sum.splits)

lemma method4_starts:
  "Print 88 (newline @ ''4. Different Models'') \<in> set (trace (method4 w c))"
  "95 \<in> set (called (trace (method4 w c)))"
  by (simp_all add: method4_def run_simps split: sum.splits)

lemma method5_starts:
  "Print 117 (newline @ ''5. Model Info & Health Check'') \<in> set (trace (method5 w c))"
  "122 \<in> set (called (trace (method5 w c)))"
  by (simp_all add: method5_def run_simps split: sum.splits)

lemma pandas_example_starts:
  "Print 139 (newline @ bar_chart @ '' Advanced Pandas Example'')
     \<in> set (trace (pandas_example w))"
  "157 \<in> set (called (trace (pandas_example w)))"
  by (simp_all add: pandas_example_def run_simps split: sum.splits)

lemmas starts =
  method1_starts method2_starts method3_starts method4_starts method5_starts
  pandas_example_starts

text \<open>
  C3, as stated, fails: when no call succeeds, the prediction of example 1 raises and is
  caught, the constructor of line 41 raises, and neither example 3 nor \<open>pandas_example\<close>
  starts.
\<close>

theorem unreachable_service_stops_after_example1:
  "27 \<in> set (called (trace (script world_unreachable)))
   \<and> Print 35 (error_msg (Exception ''Connection refused''))
       \<in> set (trace (script world_unreachable))
   \<and> Print 66 (newline @ ''3. Using Pandas Series'') \<notin> set (trace (script world_unreachable))
   \<and> 77 \<notin> set (called (trace (script world_unreachable)))
   \<and> Print 139 (newline @ bar_chart @ '' Advanced Pandas Example'')
       \<notin> set (trace (script world_unreachable))
   \<and> 157 \<notin> set (called (trace (script world_unreachable)))"
  by code_simp

text \<open>
  C3, amended: for every choice of which calls raise that lets the client construction of
  line 41 return, every example runs, whatever was raised and caught before it: its heading
  is printed and the first call of its \<open>try\<close> body is attempted; so does \<open>pandas_example\<close>.
\<close>

theorem later_examples_run:
  assumes "\<not> raises (client_lib w 41)"
  shows "set headings \<subseteq> set (trace (script w))
         \<and> set [27, 45, 77, 95, 122, 157] \<subseteq> set (called (trace (script w)))
         \<and> completion \<in> set (trace (script w))"
proof -
  from assms obtain c where c: "client_lib w 41 = Inr c"
    by (cases "client_lib w 41") simp_all
  have "set headings \<subseteq> set (trace (script w))"
    using c by (simp add: headings_def trace_script trace_main trace_heading2 starts)
  moreover have "set [27, 45, 77, 95, 122, 157] \<subseteq> set (called (trace (script w)))"
    using c by (simp add: called_script_client starts)
  moreover have "completion \<in> set (trace (script w))"
    using c by (simp add: trace_script trace_main)
  ultimately show ?thesis by simp
qed

text \<open>An instance: every call but the constructor raises.\<close>

theorem later_examples_run_witness:
  "\<not> raises (client_lib world_service_down 41)
   \<and> raised world_service_down (trace (script world_service_down))
       = replicate 6 (Exception ''Connection refused'')
   \<and> set headings \<subseteq> set (trace (script world_service_down))
   \<and> set [27, 45, 77, 95, 122, 157] \<subseteq> set (called (trace (script world_service_down)))"
proof -
  have h: "\<not> raises (client_lib world_service_down 41)"
    by (simp add: world_service_down_def)
  have "raised world_service_down (trace (script world_service_down))
       = replicate 6 (Exception ''Connection refused'')"
    by code_simp
  with h later_examples_run [OF h] show ?thesis by simp
qed

subsection \<open>C4: one way of handling\<close>

text \<open>
  C4, as stated, fails: the treatment depends on the call that raised. An exception of the
  TOTO prediction of line 104 is reported by the inner handler with a message of its own,
  and the generic message is not printed for it.
\<close>

theorem toto_failure_has_own_message:
  "104 \<in> set (called (trace (script world_toto_down)))
   \<and> client_lib world_toto_down 104 = Inl (Exception ''Model not found'')
   \<and> error_msg (Exception ''Model not found'') \<notin> set (printed (trace (script world_toto_down)))
   \<and> toto_msg (Exception ''Model not found'') \<in> set (printed (trace (script world_toto_down)))"
  by code_simp

text \<open>
  C4, amended: no error is classified by kind and none is retried: no call is made twice,
  and every exception of a call other than the client construction of line 41 is caught
  by a handler for \<open>Exception\<close> and reported in one line that ends with its text. The line
  has the generic form \<open>Error: e\<close>, except for the calls of lines 104 and 109 in the inner
  \<open>try\<close> of example 4, whose handler prints \<open>TOTO model not available: e\<close>.
\<close>

theorem uniform_handling:
  "distinct (called (trace (script w)))
   \<and> (\<forall>l e. l \<in> set (called (trace (script w))) \<and> client_lib w l = Inl e \<and> l \<noteq> 41 \<longrightarrow>
         (if l = 104 \<or> l = 109 then toto_msg e else error_msg e)
           \<in> set (printed (trace (script w))))"
proof -
  have "(if l = 104 \<or> l = 109 then toto_msg e else error_msg e)
          \<in> set (printed (trace (script w)))"
    if l: "l \<in> set (called (trace (script w)))" and e: "client_lib w l = Inl e"
      and n: "l \<noteq> 41" for l e
  proof -
    from script_guarded [OF l n] e obtain h
      where h: "handler_line l = Some h" "Print h (handler_msg h e) \<in> set (trace (script w))"
      by (auto simp add: guarded_def split: option.splits)
    from h(2) have p: "handler_msg h e \<in> set (printed (trace (script w)))"
      by (rule printed_set)
    from l script_calls [of w] have
      "l \<in> {27, 31, 32, 33, 41, 45, 49, 50, 53, 58, 59, 60, 77, 82, 95, 100, 104, 109,
             122, 126, 157, 163, 166}"
      by blast
    with h(1) p show ?thesis
      by (auto simp add: handler_line_values handler_msg_def)
  qed
  with script_distinct [of w] show ?thesis by blast
qed

text \<open>An instance of each form: line 45 raises when only the constructor works.\<close>

theorem uniform_handling_witness:
  "45 \<in> set (called (trace (script world_service_down)))
   \<and> client_lib world_service_down 45 = Inl (Exception ''Connection refused'')
   \<and> error_msg (Exception ''Connection refused'')
       \<in> set (printed (trace (script world_service_down)))
   \<and> distinct (called (trace (script world_service_down)))"
proof -
  have c: "45 \<in> set (called (trace (script world_service_down)))"
    by code_simp
  have r: "client_lib world_service_down 45 = Inl (Exception ''Connection refused'')"
    by (simp add: world_service_down_def)
  note u = uniform_handling [of world_service_down]
  from u have
    "45 \<in> set (called (trace (script world_service_down)))
     \<and> client_lib world_service_down 45 = Inl (Exception ''Connection refused'')
     \<and> (45::nat) \<noteq> 41 \<longrightarrow>
     (if (45::nat) = 104 \<or> (45::nat) = 109 then toto_msg (Exception ''Connection refused'')
      else error_msg (Exception ''Connection refused''))
       \<in> set (printed (trace (script world_service_down)))"
    by blast
  with c r have "error_msg (Exception ''Connection refused'')
       \<in> set (printed (trace (script world_service_down)))"
    by simp
  with u c r show ?thesis
    by simp
qed

subsection \<open>C7: sequential execution\<close>

lemma main_lines:
  "ev \<in> set (trace (main w)) \<Longrightarrow> 16 \<le> line_of ev \<and> line_of ev \<le> 132"
  by (auto simp add: trace_main trace_heading2 completion_def split: sum.splits
      dest: method1_lines method2_lines method3_lines method4_lines method5_lines)

lemma main_sorted: "sorted (map line_of (trace (main w)))"
proof (cases "client_lib w 41")
  case (Inl e)
  then show ?thesis
    using method1_sorted [of w]
    by (auto simp add: trace_main trace_heading2 sorted_append dest: method1_lines)
next
  case (Inr c)
  then show ?thesis
    using method1_sorted [of w] method2_sorted [of w c] method3_sorted [of w c]
      method4_sorted [of w c] method5_sorted [of w c]
    by (simp add: trace_main trace_heading2 sorted_append completion_def)
      (fastforce dest: method1_lines method2_lines method3_lines method4_lines method5_lines)
qed

lemma sorted_map_mono:
  "sorted (map f xs) \<Longrightarrow> (\<And>a b. a \<le> b \<Longrightarrow> g a \<le> g b) \<Longrightarrow> sorted (map (\<lambda>x. g (f x)) xs)"
  by (induction xs) auto

lemma example_of_mono: "a \<le> b \<Longrightarrow> example_of a \<le> example_of b"
  by (simp add: example_of_def)

text \<open>
  C7: in every run the events of \<open>main\<close> come in the order of the source lines, so the
  calls and the output of one example all come before those of the next; the events of
  \<open>pandas_example\<close> come after all those of \<open>main\<close>, and only when \<open>main\<close> has returned.
\<close>

theorem sequential_execution:
  "sorted (map line_of (trace (main w)))
   \<and> sorted (map (\<lambda>ev. example_of (line_of ev)) (trace (main w)))
   \<and> (\<forall>ev \<in> set (trace (main w)). 16 \<le> line_of ev \<and> line_of ev \<le> 132)
   \<and> sorted (map line_of (trace (pandas_example w)))
   \<and> (\<forall>ev \<in> set (trace (pandas_example w)). 139 \<le> line_of ev \<and> line_of ev \<le> 171)
   \<and> trace (script w) =
       [Print 175 ''Make sure the TSFM server is running on http://localhost:8000'',
        Print 176 []]
       @ trace (main w)
       @ (case outcome (main w) of Inl e \<Rightarrow> [] | Inr u \<Rightarrow> trace (pandas_example w))"
proof -
  have "sorted (map (\<lambda>ev. example_of (line_of ev)) (trace (main w)))"
    using main_sorted example_of_mono by (rule sorted_map_mono)
  moreover have "trace (script w) =
       [Print 175 ''Make sure the TSFM server is running on http://localhost:8000'',
        Print 176 []]
       @ trace (main w)
       @ (case outcome (main w) of Inl e \<Rightarrow> [] | Inr u \<Rightarrow> trace (pandas_example w))"
    by (simp add: script_def run_simps split: sum.splits)
  ultimately show ?thesis
    using main_sorted [of w] pandas_example_sorted [of w] main_lines [of _ w]
      pandas_example_lines [of _ w]
    by blast
qed

text \<open>An instance: the run in which every call succeeds.\<close>

theorem sequential_execution_witness:
  "map line_of (trace (main world_all_ok)) =
     [16, 17, 20, 21, 24, 27, 31, 31, 32, 32, 33, 33, 38, 39, 41, 45, 46, 49, 50, 50, 53,
      58, 58, 59, 60, 60, 66, 67, 74, 75, 77, 82, 82, 88, 89, 95, 100, 100, 104, 109, 109,
      117, 118, 122, 123, 126, 127, 132]
   \<and> sorted (map line_of (trace (main world_all_ok)))
   \<and> sorted (map (\<lambda>ev. example_of (line_of ev)) (trace (main world_all_ok)))"
proof -
  have "map line_of (trace (main world_all_ok)) =
     [16, 17, 20, 21, 24, 27, 31, 31, 32, 32, 33, 33, 38, 39, 41, 45, 46, 49, 50, 50, 53,
      58, 58, 59, 60, 60, 66, 67, 74, 75, 77, 82, 82, 88, 89, 95, 100, 100, 104, 109, 109,
      117, 118, 122, 123, 126, 127, 132]"
    by code_simp
  with sequential_execution [of world_all_ok] show ?thesis
    by blast
qed

subsection \<open>C8: one boundary for example 2\<close>

lemma called_in_method2:
  assumes "l \<in> {45, 49, 50, 53, 58, 59, 60}" and "l \<in> set (called (trace (script w)))"
  shows "\<exists>c. client_lib w 41 = Inr c \<and> l \<in> set (called (trace (method2 w c)))"
proof (cases "client_lib w 41")
  case (Inl e)
  with assms show ?thesis
    using method1_calls [of w] by (auto simp add: called_script_no_client)
next
  case (Inr c)
  with assms show ?thesis
    using method1_calls [of w] method3_calls [of w c] method4_calls [of w c]
      method5_calls [of w c] pandas_example_calls [of w]
    by (auto simp add: called_script_client)
qed

lemma method2_stops:
  "raises (client_lib w 45) \<Longrightarrow> called (trace (method2 w c)) = [45]"
  "raises (client_lib w 49) \<Longrightarrow> 53 \<notin> set (called (trace (method2 w c)))"
  by (cases "client_lib w 45"; cases "client_lib w 49";
      simp add: method2_def run_simps split: sum.splits)+

text \<open>
  C8: in example 2, \<open>list_models\<close> and the two predictions are under one handler. When
  \<open>list_models\<close> (line 45) raises, neither prediction (lines 49 and 53) is called; when the
  first prediction raises, the second is not called; and an exception of any of the three
  is reported by the handler of line 63.
\<close>

theorem method2_single_boundary:
  "(raises (client_lib w 45) \<longrightarrow>
      49 \<notin> set (called (trace (script w))) \<and> 53 \<notin> set (called (trace (script w))))
   \<and> (raises (client_lib w 49) \<longrightarrow> 53 \<notin> set (called (trace (script w))))
   \<and> (\<forall>l e. l \<in> {45, 49, 53} \<and> l \<in> set (called (trace (script w))) \<and> client_lib w l = Inl e
        \<longrightarrow> Print 63 (error_msg e) \<in> set (trace (script w)))"
proof -
  have a: "49 \<notin> set (called (trace (script w))) \<and> 53 \<notin> set (called (trace (script w)))"
    if "raises (client_lib w 45)"
    using that called_in_method2 [of 49 w] called_in_method2 [of 53 w] method2_stops(1) [of w]
    by auto
  have b: "53 \<notin> set (called (trace (script w)))" if "raises (client_lib w 49)"
    using that called_in_method2 [of 53 w] method2_stops(2) [of w] by auto
  have c: "Print 63 (error_msg e) \<in> set (trace (script w))"
    if "l \<in> {45, 49, 53}" "l \<in> set (called (trace (script w)))" "client_lib w l = Inl e"
    for l e
  proof -
    from that(1) have "l \<noteq> 41" by auto
    from script_guarded [OF that(2) this] that(1,3) show ?thesis
      by (auto simp add: guarded_def handler_line_values handler_msg_def)
  qed
  from a b c show ?thesis by blast
qed

text \<open>An instance: only \<open>list_models\<close> raises.\<close>

theorem method2_single_boundary_witness:
  "raises (client_lib world_no_models 45)
   \<and> 45 \<in> set (called (trace (script world_no_models)))
   \<and> 49 \<notin> set (called (trace (script world_no_models)))
   \<and> 53 \<notin> set (called (trace (script world_no_models)))
   \<and> Print 63 (error_msg (Exception ''Forbidden'')) \<in> set (trace (script world_no_models))"
proof -
  have r: "client_lib world_no_models 45 = Inl (Exception ''Forbidden'')"
    by (simp add: world_no_models_def)
  have c: "45 \<in> set (called (trace (script world_no_models)))"
    by code_simp
  note t = method2_single_boundary [of world_no_models]
  from t r have "49 \<notin> set (called (trace (script world_no_models)))
      \<and> 53 \<notin> set (called (trace (script world_no_models)))"
    by simp
  moreover from t have
    "(45::nat) \<in> {45, 49, 53} \<and> 45 \<in> set (called (trace (script world_no_models)))
     \<and> client_lib world_no_models 45 = Inl (Exception ''Forbidden'')
     \<longrightarrow> Print 63 (error_msg (Exception ''Forbidden'')) \<in> set (trace (script world_no_models))"
    by blast
  ultimately show ?thesis
    using r c by simp
qed

subsection \<open>C9: the inner handler of example 4\<close>

lemma called_in_method4:
  assumes "l \<in> {95, 100, 104, 109}" and "l \<in> set (called (trace (script w)))"
  shows "\<exists>c. client_lib w 41 = Inr c \<and> l \<in> set (called (trace (method4 w c)))"
proof (cases "client_lib w 41")
  case (Inl e)
  with assms show ?thesis
    using method1_calls [of w] by (auto simp add: called_script_no_client)
next
  case (Inr c)
  with assms show ?thesis
    using method1_calls [of w] method2_calls [of w c] method3_calls [of w c]
      method5_calls [of w c] pandas_example_calls [of w]
    by (auto simp add: called_script_client)
qed

lemma line114_in_method4:
  assumes "ev \<in> set (trace (script w))" and "line_of ev = 114"
  shows "\<exists>c. client_lib w 41 = Inr c \<and> ev \<in> set (trace (method4 w c))"
proof (cases "client_lib w 41")
  case (Inl e)
  with assms show ?thesis
    by (auto simp add: trace_script trace_main trace_heading2 dest: method1_lines)
next
  case (Inr c)
  with assms show ?thesis
    by (auto simp add: trace_script trace_main trace_heading2 completion_def
        dest: method1_lines method2_lines method3_lines method5_lines pandas_example_lines)
qed

lemma method4_inner:
  "104 \<in> set (called (trace (method4 w c))) \<Longrightarrow> client_lib w 104 = Inl e \<Longrightarrow>
   Print 111 (toto_msg e) \<in> set (trace (method4 w c))
   \<and> 114 \<notin> line_of ` set (trace (method4 w c))"
  by (simp add: method4_def run_simps split: sum.splits)

lemma method4_outer:
  "114 \<in> line_of ` set (trace (method4 w c)) \<Longrightarrow>
   raises (client_lib w 95) \<or> raises (client_lib w 100)"
  by (simp add: method4_def run_simps split: sum.splits)

text \<open>
  C9: in example 4, an exception of the prediction for \<open>toto-open-base-1.0\<close> (line 104) is
  caught by the inner handler, which prints the model-not-available message of line 111;
  the outer handler of line 114 does not run for it, and the rest of the script goes on:
  example 5, the closing line of \<open>main\<close> and \<open>pandas_example\<close> follow, and the script returns.
  The outer handler runs only when the chronos-t5-small prediction of line 95 or the read
  of its forecast on line 100 raises.
\<close>

theorem toto_failure_contained:
  "(104 \<in> set (called (trace (script w))) \<and> client_lib w 104 = Inl e \<longrightarrow>
      Print 111 (toto_msg e) \<in> set (trace (script w))
      \<and> 114 \<notin> line_of ` set (trace (script w))
      \<and> Print 117 (newline @ ''5. Model Info & Health Check'') \<in> set (trace (script w))
      \<and> 122 \<in> set (called (trace (script w)))
      \<and> completion \<in> set (trace (script w))
      \<and> 157 \<in> set (called (trace (script w)))
      \<and> outcome (script w) = Inr ())
   \<and> (114 \<in> line_of ` set (trace (script w)) \<longrightarrow>
        raises (client_lib w 95) \<or> raises (client_lib w 100))"
proof -
  have outer: "raises (client_lib w 95) \<or> raises (client_lib w 100)"
    if "114 \<in> line_of ` set (trace (script w))"
  proof -
    from that obtain ev where "ev \<in> set (trace (script w))" "line_of ev = 114"
      by auto
    then obtain c where "ev \<in> set (trace (method4 w c))"
      using line114_in_method4 by blast
    with \<open>line_of ev = 114\<close> have "114 \<in> line_of ` set (trace (method4 w c))"
      by force
    then show ?thesis by (rule method4_outer)
  qed
  have inner: "Print 111 (toto_msg e) \<in> set (trace (script w))
      \<and> 114 \<notin> line_of ` set (trace (script w))
      \<and> Print 117 (newline @ ''5. Model Info & Health Check'') \<in> set (trace (script w))
      \<and> 122 \<in> set (called (trace (script w)))
      \<and> completion \<in> set (trace (script w))
      \<and> 157 \<in> set (called (trace (script w)))
      \<and> outcome (script w) = Inr ()"
    if called: "104 \<in> set (called (trace (script w)))" and e: "client_lib w 104 = Inl e"
  proof -
    from called obtain c where c: "client_lib w 41 = Inr c"
      and m: "104 \<in> set (called (trace (method4 w c)))"
      using called_in_method4 [of 104 w] by auto
    note i = method4_inner [OF m e]
    from i methods_in_script(3) [OF c] have "Print 111 (toto_msg e) \<in> set (trace (script w))"
      by blast
    moreover have "114 \<notin> line_of ` set (trace (script w))"
    proof
      assume "114 \<in> line_of ` set (trace (script w))"
      then obtain ev where ev: "ev \<in> set (trace (script w))" "line_of ev = 114"
        by auto
      then obtain c' where "client_lib w 41 = Inr c'" "ev \<in> set (trace (method4 w c'))"
        using line114_in_method4 by blast
      with c ev(2) have "114 \<in> line_of ` set (trace (method4 w c))"
        by force
      with i show False by simp
    qed
    moreover have "Print 117 (newline @ ''5. Model Info & Health Check'') \<in> set (trace (script w))"
      "completion \<in> set (trace (script w))"
      using c by (simp_all add: trace_script trace_main starts)
    moreover have "122 \<in> set (called (trace (script w)))" "157 \<in> set (called (trace (script w)))"
      using c by (simp_all add: called_script_client starts)
    moreover have "outcome (script w) = Inr ()"
      using c by (simp add: outcome_script)
    ultimately show ?thesis by simp
  qed
  from inner outer show ?thesis by blast
qed

text \<open>An instance: only the TOTO prediction raises.\<close>

theorem toto_failure_contained_witness:
  "104 \<in> set (called (trace (script world_toto_down)))
   \<and> client_lib world_toto_down 104 = Inl (Exception ''Model not found'')
   \<and> Print 111 (toto_msg (Exception ''Model not found'')) \<in> set (trace (script world_toto_down))
   \<and> 114 \<notin> line_of ` set (trace (script world_toto_down))
   \<and> 157 \<in> set (called (trace (script world_toto_down)))
   \<and> outcome (script world_toto_down) = Inr ()"
proof -
  have c: "104 \<in> set (called (trace (script world_toto_down)))"
    by code_simp
  have r: "client_lib world_toto_down 104 = Inl (Exception ''Model not found'')"
    by (simp add: world_toto_down_def)
  from toto_failure_contained [of world_toto_down "Exception ''Model not found''"] c r
  show ?thesis by blast
qed

subsection \<open>C10: the closing line\<close>

text \<open>
  C10: whenever \<open>main\<close> returns, the last thing it did was to print the completion message,
  whether or not any call of the client succeeded.
\<close>

theorem completion_message_on_return:
  "outcome (main w) = Inr () \<Longrightarrow>
   last (trace (main w)) = Print 132 (newline @ party_popper @ '' All examples completed!'')"
  by (cases "client_lib w 41") (simp_all add: outcome_main trace_main completion_def)

text \<open>
  An instance: the constructor returns, each of the five calls \<open>main\<close> makes after it
  raises and is caught, and the completion message is printed all the same.
\<close>

theorem completion_message_when_service_down:
  "outcome (main world_service_down) = Inr ()
   \<and> called (trace (main world_service_down)) = [27, 41, 45, 77, 95, 122]
   \<and> raised world_service_down (trace (main world_service_down))
       = replicate 5 (Exception ''Connection refused'')
   \<and> last (trace (main world_service_down))
       = Print 132 (newline @ party_popper @ '' All examples completed!'')"
proof -
  have o: "outcome (main world_service_down) = Inr ()"
    by (simp add: outcome_main world_service_down_def)
  have "called (trace (main world_service_down)) = [27, 41, 45, 77, 95, 122]"
    "raised world_service_down (trace (main world_service_down))
       = replicate 5 (Exception ''Connection refused'')"
    by code_simp+
  with o completion_message_on_return [OF o] show ?thesis
    by simp
qed

end
